theory Spec2Isabelle
  imports Complex_Main
begin

section \<open>Python values\<close>

text \<open>
  The ingestion pipeline of \<^verbatim>\<open>modules/utils/fetchdata.py\<close> works on values decoded from
  JSON: the items of a page, the state file, the payload of a stored point. They are modelled
  by one datatype. A dict is an association list read with \<open>map_of\<close>. A float is a real
  number: the pipeline passes floats through and never computes with them; NaN and the
  infinities are outside the model.
\<close>

datatype pyval =
    PNone
  | PBool bool
  | PInt int
  | PFloat real
  | PStr string
  | PList "pyval list"
  | PDict "(string \<times> pyval) list"

text \<open>Python's truth value of an object, as tested by \<^verbatim>\<open>if not x\<close>.\<close>

fun truthy :: "pyval \<Rightarrow> bool" where
  "truthy PNone = False"
| "truthy (PBool b) = b"
| "truthy (PInt i) = (i \<noteq> 0)"
| "truthy (PFloat r) = (r \<noteq> 0)"
| "truthy (PStr s) = (s \<noteq> [])"
| "truthy (PList xs) = (xs \<noteq> [])"
| "truthy (PDict kvs) = (kvs \<noteq> [])"

text \<open>\<^verbatim>\<open>d.get(k, default)\<close>; \<^verbatim>\<open>d.get(k)\<close> is \<open>dict_get d k PNone\<close>.\<close>

definition dict_get :: "(string \<times> pyval) list \<Rightarrow> string \<Rightarrow> pyval \<Rightarrow> pyval" where
  "dict_get d k dflt = (case map_of d k of None \<Rightarrow> dflt | Some v \<Rightarrow> v)"

subsection \<open>Reading an integer from a string\<close>

text \<open>
  \<^verbatim>\<open>int(s)\<close> for a string in base 10: white space is stripped at both ends, one sign is
  allowed, then decimal digits follow, where a single underscore may stand between two digits.
  \<open>None\<close> is Python's ValueError. Characters are taken as ASCII: the Unicode digits and
  spaces that \<^verbatim>\<open>int\<close> also accepts, and the interpreter's limit on the number of digits,
  are outside the model.
\<close>

definition py_isspace :: "char \<Rightarrow> bool" where
  "py_isspace c = (c \<in> set [CHR 0x09, CHR 0x0A, CHR 0x0B, CHR 0x0C, CHR 0x0D, CHR 0x20])"

definition py_strip :: "string \<Rightarrow> string" where
  "py_strip s = rev (dropWhile py_isspace (rev (dropWhile py_isspace s)))"

definition digit_val :: "char \<Rightarrow> nat option" where
  "digit_val c =
     (let n = (of_char c :: nat) in if 48 \<le> n \<and> n \<le> 57 then Some (n - 48) else None)"

fun parse_digits :: "nat \<Rightarrow> string \<Rightarrow> nat option" where
  "parse_digits acc [] = Some acc"
| "parse_digits acc [c] =
     (case digit_val c of None \<Rightarrow> None | Some v \<Rightarrow> Some (10 * acc + v))"
| "parse_digits acc (c # d # ds) =
     (if c = CHR ''_'' then
        (case digit_val d of None \<Rightarrow> None | Some v \<Rightarrow> parse_digits (10 * acc + v) ds)
      else
        (case digit_val c of None \<Rightarrow> None | Some v \<Rightarrow> parse_digits (10 * acc + v) (d # ds)))"

definition parse_unsigned :: "string \<Rightarrow> nat option" where
  "parse_unsigned s =
     (case s of
        [] \<Rightarrow> None
      | c # cs \<Rightarrow> (case digit_val c of None \<Rightarrow> None | Some v \<Rightarrow> parse_digits v cs))"

definition py_int_of_str :: "string \<Rightarrow> int option" where
  "py_int_of_str s =
     (case py_strip s of
        [] \<Rightarrow> None
      | c # cs \<Rightarrow>
          if c = CHR ''-'' then map_option (\<lambda>n. - int n) (parse_unsigned cs)
          else if c = CHR ''+'' then map_option int (parse_unsigned cs)
          else map_option int (parse_unsigned (c # cs)))"

text \<open>
  \<^verbatim>\<open>int(str(v))\<close>, the conversion \<^verbatim>\<open>_process_item\<close> applies to an id. The text of an
  integer reads back as that integer and a string is its own text. The text of every other
  value is no integer numeral (\<^verbatim>\<open>True\<close>, \<^verbatim>\<open>None\<close>, a float's text with its point or
  exponent, the brackets of a list or dict), so the conversion raises ValueError, here \<open>None\<close>.
\<close>

fun int_of_str_of :: "pyval \<Rightarrow> int option" where
  "int_of_str_of (PInt i) = Some i"
| "int_of_str_of (PStr s) = py_int_of_str s"
| "int_of_str_of _ = None"

section \<open>Record validation\<close>

text \<open>
  \<^verbatim>\<open>CivitaiDataFetcher._process_item\<close> returns the record or \<^verbatim>\<open>None\<close>. Each
  \<^verbatim>\<open>return None\<close> of the source writes its own log line; the model returns the reason in
  place of \<^verbatim>\<open>None\<close>, so the order of the checks can be observed.
\<close>

datatype rejection =
    InvalidItemFormat
  | NoId
  | InvalidIdFormat
  | NoBaseModel
  | UnsupportedModel
  | InvalidMetaFormat
  | NoPrompt

record generation_meta =
  seed :: pyval
  steps :: pyval
  cfg_scale :: pyval
  sampler :: pyval
  width :: pyval
  height :: pyval

record canonical_record =
  rec_id :: int
  url :: pyval
  prompt :: pyval
  negative_prompt :: pyval
  model_name :: pyval
  created_at :: pyval
  meta :: generation_meta

definition ALLOWED_MODELS :: "pyval list" where
  "ALLOWED_MODELS = [PStr ''Illustrious'', PStr ''Flux.1 D'', PStr ''Pony'']"

definition make_record ::
  "int \<Rightarrow> (string \<times> pyval) list \<Rightarrow> pyval \<Rightarrow> (string \<times> pyval) list \<Rightarrow> pyval
     \<Rightarrow> canonical_record" where
  "make_record item_id item base_model meta_d prompt_v =
     \<lparr> rec_id = item_id,
       url = dict_get item ''url'' (PStr ''''),
       prompt = prompt_v,
       negative_prompt = dict_get meta_d ''negativePrompt'' (PStr ''''),
       model_name = base_model,
       created_at = dict_get item ''createdAt'' (PStr ''''),
       meta = \<lparr> seed = dict_get meta_d ''seed'' PNone,
                steps = dict_get meta_d ''steps'' PNone,
                cfg_scale = dict_get meta_d ''cfgScale'' PNone,
                sampler = dict_get meta_d ''sampler'' PNone,
                width = dict_get meta_d ''width'' PNone,
                height = dict_get meta_d ''height'' PNone \<rparr> \<rparr>"

definition process_item :: "pyval \<Rightarrow> rejection + canonical_record" where
  "process_item item =
     (case item of
        PDict d \<Rightarrow>
          (let item_id = dict_get d ''id'' PNone in
           if \<not> truthy item_id then Inl NoId
           else
             (case int_of_str_of item_id of
                None \<Rightarrow> Inl InvalidIdFormat
              | Some i \<Rightarrow>
                  (let base_model = dict_get d ''baseModel'' PNone in
                   if \<not> truthy base_model then Inl NoBaseModel
                   else if base_model \<notin> set ALLOWED_MODELS then Inl UnsupportedModel
                   else
                     (case dict_get d ''meta'' PNone of
                        PDict m \<Rightarrow>
                          (let prompt_v = dict_get m ''prompt'' PNone in
                           if \<not> truthy prompt_v then Inl NoPrompt
                           else Inr (make_record i d base_model m prompt_v))
                      | _ \<Rightarrow> Inl InvalidMetaFormat))))
      | _ \<Rightarrow> Inl InvalidItemFormat)"

section \<open>Embedding normalisation\<close>

text \<open>
  What the embedding provider may hand back: a number, a list, a one-dimensional numeric
  numpy array, or some other object (\<^verbatim>\<open>None\<close>, say) that is neither a list nor an array
  and that \<^verbatim>\<open>float\<close> refuses.
\<close>

datatype embval =
    ENum real
  | EOther
  | EList "embval list"
  | ENdarray "real list"

text \<open>\<^verbatim>\<open>array.tolist()\<close> of a one-dimensional array.\<close>

definition tolist :: "real list \<Rightarrow> embval" where
  "tolist rs = EList (map ENum rs)"

text \<open>
  \<^verbatim>\<open>float(x)\<close>; \<open>None\<close> is the TypeError or ValueError that the source catches. numpy
  converts an array of exactly one element.
\<close>

fun py_float :: "embval \<Rightarrow> real option" where
  "py_float (ENum r) = Some r"
| "py_float EOther = None"
| "py_float (EList xs) = None"
| "py_float (ENdarray rs) = (case rs of [r] \<Rightarrow> Some r | _ \<Rightarrow> None)"

text \<open>Lines 224 to 230 of \<^verbatim>\<open>_store_in_qdrant\<close>: "Handle different embedding formats".\<close>

definition unwrap_embedding :: "embval \<Rightarrow> embval" where
  "unwrap_embedding embeddings =
     (case embeddings of
        EList (x # xs) \<Rightarrow> (case x of ENdarray rs \<Rightarrow> tolist rs | _ \<Rightarrow> x)
      | ENdarray rs \<Rightarrow> tolist rs
      | _ \<Rightarrow> embeddings)"

datatype embedding_error = InvalidEmbeddingFormat | FloatConversionError

text \<open>
  Lines 224 to 242: the unwrapping, the test that the result is a list, and the conversion of
  every element with \<^verbatim>\<open>float\<close>. \<open>Inl\<close> is a record that is logged and skipped.
\<close>

definition normalize_embedding :: "embval \<Rightarrow> embedding_error + real list" where
  "normalize_embedding embeddings =
     (case unwrap_embedding embeddings of
        EList xs \<Rightarrow>
          (case those (map py_float xs) of
             None \<Rightarrow> Inl FloatConversionError
           | Some fs \<Rightarrow> Inr fs)
      | _ \<Rightarrow> Inl InvalidEmbeddingFormat)"

text \<open>
  The same step on the read path, lines 62 to 67 of \<^verbatim>\<open>get_similar_prompts\<close> in
  \<^verbatim>\<open>modules/utils/qdrant.py\<close>: a list is unwrapped only when its first element is an array.
\<close>

definition get_similar_prompts_embedding :: "embval \<Rightarrow> embval" where
  "get_similar_prompts_embedding embeddings =
     (case embeddings of
        EList (ENdarray rs # xs) \<Rightarrow> tolist rs
      | ENdarray rs \<Rightarrow> tolist rs
      | _ \<Rightarrow> embeddings)"

section \<open>The vector store and the write path\<close>

record point =
  point_id :: int
  vector :: "real list"
  payload :: canonical_record

text \<open>
  The store client is external. \<open>scroll\<close> is the filtered lookup of \<^verbatim>\<open>_check_duplicate\<close>
  (points whose payload field \<^verbatim>\<open>id\<close> matches, at most one), \<open>upsert\<close> the call
  \<^verbatim>\<open>upsert(collection, points, wait=True)\<close>. \<open>None\<close> is a raised exception; a call that
  raises leaves the store as it was.
\<close>

record 'st qdrant_client =
  scroll :: "int \<Rightarrow> 'st \<Rightarrow> point list option"
  upsert :: "point list \<Rightarrow> 'st \<Rightarrow> 'st option"

definition check_duplicate :: "'st qdrant_client \<Rightarrow> 'st \<Rightarrow> int \<Rightarrow> bool" where
  "check_duplicate cl st item_id =
     (case scroll cl item_id st of
        None \<Rightarrow> False
      | Some results \<Rightarrow> length results > 0)"

text \<open>
  The first loop of \<^verbatim>\<open>_store_in_qdrant\<close> (lines 214 to 255), with its two accumulators
  \<^verbatim>\<open>points\<close> and \<^verbatim>\<open>skipped\<close>. The embedder may raise (\<open>None\<close>), which leaves the loop
  and the function. Building the point itself does not fail in this model.
\<close>

fun collect_points ::
  "'st qdrant_client \<Rightarrow> (pyval \<Rightarrow> embval option) \<Rightarrow> 'st \<Rightarrow> canonical_record list
     \<Rightarrow> point list \<Rightarrow> nat \<Rightarrow> (point list \<times> nat) option" where
  "collect_points cl embedder st [] points skipped = Some (points, skipped)"
| "collect_points cl embedder st (r # rs) points skipped =
     (if check_duplicate cl st (rec_id r) then collect_points cl embedder st rs points (skipped + 1)
      else
        (case embedder (prompt r) of
           None \<Rightarrow> None
         | Some embeddings \<Rightarrow>
             (case normalize_embedding embeddings of
                Inl e \<Rightarrow> collect_points cl embedder st rs points skipped
              | Inr v \<Rightarrow>
                  collect_points cl embedder st rs
                    (points @ [\<lparr> point_id = rec_id r, vector = v, payload = r \<rparr>]) skipped)))"

text \<open>
  \<^verbatim>\<open>points[i:i + batch_size] for i in range(0, len(points), batch_size)\<close>.
\<close>

function sub_batches :: "nat \<Rightarrow> 'a list \<Rightarrow> 'a list list" where
  "sub_batches n xs =
     (if n = 0 \<or> xs = [] then [] else take n xs # sub_batches n (drop n xs))"
  by pat_completeness auto
termination
  by (relation "measure (\<lambda>(n, xs). length xs)") auto

text \<open>
  The second loop (lines 268 to 276): the sub-batches are upserted in order; the first
  exception ends the loop. The result is the store, the sub-batches passed to \<open>upsert\<close> so
  far (the failing one included) and whether all calls returned.
\<close>

fun submit_batches ::
  "'st qdrant_client \<Rightarrow> point list list \<Rightarrow> 'st \<Rightarrow> point list list
     \<Rightarrow> 'st \<times> point list list \<times> bool" where
  "submit_batches cl [] st sent = (st, sent, True)"
| "submit_batches cl (b # bs) st sent =
     (case upsert cl b st of
        None \<Rightarrow> (st, sent @ [b], False)
      | Some st' \<Rightarrow> submit_batches cl bs st' (sent @ [b]))"

text \<open>
  \<^verbatim>\<open>_store_in_qdrant\<close> returns nothing: it ends normally or re-raises. The model returns
  what the call leaves behind: the store, whether it raised, and the values it only logs
  (\<^verbatim>\<open>skipped\<close>, \<^verbatim>\<open>points\<close>) together with the sub-batches it submitted.
\<close>

record 'st write_outcome =
  store_after :: 'st
  raised :: bool
  skipped_count :: nat
  new_points :: "point list"
  submitted :: "point list list"

definition store_in_qdrant ::
  "'st qdrant_client \<Rightarrow> (pyval \<Rightarrow> embval option) \<Rightarrow> canonical_record list \<Rightarrow> 'st
     \<Rightarrow> 'st write_outcome" where
  "store_in_qdrant cl embedder records st =
     (case collect_points cl embedder st records [] 0 of
        None \<Rightarrow>
          \<lparr> store_after = st, raised = True, skipped_count = 0, new_points = [],
            submitted = [] \<rparr>
      | Some (points, skipped) \<Rightarrow>
          if points \<noteq> [] then
            (case submit_batches cl (sub_batches 50 points) st [] of
               (st', sent, ok) \<Rightarrow>
                 \<lparr> store_after = st', raised = \<not> ok, skipped_count = skipped,
                   new_points = points, submitted = sent \<rparr>)
          else
            \<lparr> store_after = st, raised = False, skipped_count = skipped, new_points = [],
              submitted = [] \<rparr>)"

text \<open>
  A reference store for the client: the points of the collection as a list, with the
  insert-or-update-by-id of an upsert, and calls that never raise.
\<close>

fun upsert_point :: "point \<Rightarrow> point list \<Rightarrow> point list" where
  "upsert_point p [] = [p]"
| "upsert_point p (q # qs) =
     (if point_id q = point_id p then p # qs else q # upsert_point p qs)"

definition reference_client :: "(point list) qdrant_client" where
  "reference_client =
     \<lparr> scroll = (\<lambda>item_id st. Some (take 1 (filter (\<lambda>p. rec_id (payload p) = item_id) st))),
       upsert = (\<lambda>points st. Some (foldl (\<lambda>s p. upsert_point p s) st points)) \<rparr>"

declare sub_batches.simps [simp del]

section \<open>The cursor store\<close>

text \<open>
  The state file \<^verbatim>\<open>modules/utils/tempfile.json\<close>, seen through what the two functions do
  with it: it is absent; or it exists and cannot be opened or read; or its text is not JSON
  (\<^verbatim>\<open>json.load\<close> raises JSONDecodeError, as it does on an empty or truncated file); or its
  text is the JSON document of a value.
\<close>

datatype state_file = Absent | Unreadable | Malformed | Document pyval

text \<open>
  What can go wrong during one call of \<^verbatim>\<open>_save_cursor\<close>: nothing; an exception before the
  file is opened (creating the directory, opening for writing); an exception while the
  document is written. \<^verbatim>\<open>open(path, 'w')\<close> has emptied the file by then, so the file is
  left with a proper prefix of the document, which is not JSON.
\<close>

datatype save_fault = NoFault | FailBeforeOpen | FailWhileWriting

text \<open>
  \<^verbatim>\<open>_save_cursor\<close> catches every exception and logs it: the caller gets no result and no
  exception, only the file changes.
\<close>

definition save_cursor :: "save_fault \<Rightarrow> pyval \<Rightarrow> int \<Rightarrow> state_file \<Rightarrow> state_file" where
  "save_cursor fault cursor_v total_v file =
     (case fault of
        NoFault \<Rightarrow> Document (PDict [(''cursor'', cursor_v), (''total_processed'', PInt total_v)])
      | FailBeforeOpen \<Rightarrow> file
      | FailWhileWriting \<Rightarrow> Malformed)"

text \<open>
  \<^verbatim>\<open>str(v)\<close>: a string is its own text. The text of any other value is left to the
  parameter \<open>text_of\<close>.
\<close>

definition py_str :: "(pyval \<Rightarrow> string) \<Rightarrow> pyval \<Rightarrow> string" where
  "py_str text_of v = (case v of PStr s \<Rightarrow> s | _ \<Rightarrow> text_of v)"

text \<open>\<^verbatim>\<open>int(v)\<close>; \<open>None\<close> is the TypeError or ValueError. A float is cut towards zero.\<close>

fun py_int :: "pyval \<Rightarrow> int option" where
  "py_int (PInt i) = Some i"
| "py_int (PBool b) = Some (if b then 1 else 0)"
| "py_int (PFloat r) = Some (if 0 \<le> r then \<lfloor>r\<rfloor> else \<lceil>r\<rceil>)"
| "py_int (PStr s) = py_int_of_str s"
| "py_int PNone = None"
| "py_int (PList xs) = None"
| "py_int (PDict kvs) = None"

text \<open>
  \<^verbatim>\<open>_get_saved_state\<close> returns the pair and, on a file that is not JSON, resets the file
  through \<^verbatim>\<open>_save_cursor('', 0)\<close>; \<open>fault\<close> is what happens to that inner save. Every
  exception (a file that cannot be read, a document that is no dict, a count that is no
  integer) is caught and ends in the default pair.
\<close>

definition get_saved_state ::
  "(pyval \<Rightarrow> string) \<Rightarrow> save_fault \<Rightarrow> state_file \<Rightarrow> (string \<times> int) \<times> state_file" where
  "get_saved_state text_of fault file =
     (case file of
        Absent \<Rightarrow> (([], 0), file)
      | Unreadable \<Rightarrow> (([], 0), file)
      | Malformed \<Rightarrow> (([], 0), save_cursor fault (PStr []) 0 file)
      | Document data \<Rightarrow>
          (case data of
             PDict d \<Rightarrow>
               (let cursor_s = py_str text_of (dict_get d ''cursor'' (PStr [])) in
                case py_int (dict_get d ''total_processed'' (PInt 0)) of
                  None \<Rightarrow> (([], 0), file)
                | Some total_v \<Rightarrow> ((cursor_s, total_v), file))
           | _ \<Rightarrow> (([], 0), file)))"

section \<open>The orchestrator\<close>

definition BATCH_SIZE :: int where
  "BATCH_SIZE = 200"

text \<open>
  Everything \<^verbatim>\<open>fetch_and_store\<close> reaches outside the process: the store client, the
  embedder, the HTTP source (\<open>fetch_page cursor limit\<close> is the decoded body, \<open>None\<close> a
  network error, a status that \<^verbatim>\<open>raise_for_status\<close> rejects or a body that is no JSON), the
  fault that hits the save of page number \<open>n\<close> (page \<open>0\<close> is the reset inside
  \<^verbatim>\<open>_get_saved_state\<close>), and Python's text of a value.
\<close>

record 'st environment =
  client :: "'st qdrant_client"
  get_embedding :: "pyval \<Rightarrow> embval option"
  fetch_page :: "pyval \<Rightarrow> int \<Rightarrow> pyval option"
  save_fault_at :: "nat \<Rightarrow> save_fault"
  text_of_value :: "pyval \<Rightarrow> string"

text \<open>
  The variables of the loop and the world it changes. \<open>requests\<close> records the
  \<^verbatim>\<open>cursor\<close> and \<^verbatim>\<open>limit\<close> parameters of every GET, \<open>upserts\<close> every sub-batch handed
  to the store.
\<close>

record 'st run_state =
  cursor :: pyval
  total_processed :: int
  the_file :: state_file
  the_store :: 'st
  requests :: "(pyval \<times> int) list"
  upserts :: "point list list"

text \<open>
  What \<^verbatim>\<open>for item in items\<close> iterates over, \<open>None\<close> where \<^verbatim>\<open>len(items)\<close> raises TypeError
  (a number or \<^verbatim>\<open>True\<close>; the falsy values have left the loop before). A string yields its
  characters, a dict its keys.
\<close>

fun iter_items :: "pyval \<Rightarrow> pyval list option" where
  "iter_items (PList xs) = Some xs"
| "iter_items (PStr s) = Some (map (\<lambda>c. PStr [c]) s)"
| "iter_items (PDict kvs) = Some (map (\<lambda>kv. PStr (fst kv)) kvs)"
| "iter_items _ = None"

text \<open>Lines 339 to 343: the records of the items that \<^verbatim>\<open>_process_item\<close> accepts.\<close>

definition processed_records :: "pyval list \<Rightarrow> canonical_record list" where
  "processed_records its =
     concat (map (\<lambda>item. case process_item item of Inl e \<Rightarrow> [] | Inr r \<Rightarrow> [r]) its)"

text \<open>
  \<^verbatim>\<open>data.get('metadata', {}).get('nextCursor', default)\<close>; \<open>None\<close> is the AttributeError
  raised when \<^verbatim>\<open>metadata\<close> is present and no dict.
\<close>

definition next_cursor :: "(string \<times> pyval) list \<Rightarrow> pyval \<Rightarrow> pyval option" where
  "next_cursor d dflt =
     (case dict_get d ''metadata'' (PDict []) of
        PDict m \<Rightarrow> Some (dict_get m ''nextCursor'' dflt)
      | _ \<Rightarrow> None)"

datatype step_result = Continue | Break | Raise

text \<open>Lines 358 to 365: the cursor for the next page.\<close>

definition advance_cursor ::
  "(string \<times> pyval) list \<Rightarrow> 'st run_state \<Rightarrow> step_result \<times> 'st run_state" where
  "advance_cursor d st =
     (case next_cursor d PNone of
        None \<Rightarrow> (Raise, st)
      | Some c \<Rightarrow> (if \<not> truthy c then Break else Continue, st\<lparr>cursor := c\<rparr>))"

text \<open>
  One pass through the body of the \<^verbatim>\<open>while\<close> loop (lines 304 to 365), for page number
  \<open>batch\<close>. \<open>Raise\<close> is an exception that leaves \<^verbatim>\<open>fetch_and_store\<close>.
\<close>

definition fetch_step ::
  "'st environment \<Rightarrow> int \<Rightarrow> int \<Rightarrow> nat \<Rightarrow> 'st run_state \<Rightarrow> step_result \<times> 'st run_state" where
  "fetch_step env target_count prev_processed batch st =
     (let batch_size = min BATCH_SIZE (target_count - total_processed st);
          st1 = st\<lparr>requests := requests st @ [(cursor st, batch_size)]\<rparr>
      in
        case fetch_page env (cursor st) batch_size of
          None \<Rightarrow> (Raise, st1)
        | Some data \<Rightarrow>
            (case data of
               PDict d \<Rightarrow>
                 if map_of d ''items'' = None then (Break, st1)
                 else
                   (let items = dict_get d ''items'' (PList []) in
                    if \<not> truthy items then (Break, st1)
                    else
                      (case iter_items items of
                         None \<Rightarrow> (Raise, st1)
                       | Some its \<Rightarrow>
                           (let records = processed_records its in
                            if records \<noteq> [] then
                              (let w = store_in_qdrant (client env) (get_embedding env) records
                                         (the_store st1);
                                   st2 = st1\<lparr>the_store := store_after w,
                                            upserts := upserts st1 @ submitted w\<rparr>
                               in
                                 if raised w then (Break, st2)
                                 else
                                   (let st3 = st2\<lparr>total_processed :=
                                                total_processed st2 + int (length records)\<rparr>
                                    in
                                      case next_cursor d (PStr []) of
                                        None \<Rightarrow> (Break, st3)
                                      | Some c \<Rightarrow>
                                          advance_cursor d
                                            (st3\<lparr>the_file :=
                                               save_cursor (save_fault_at env batch) c
                                                 (prev_processed + total_processed st3)
                                                 (the_file st3)\<rparr>)))
                            else advance_cursor d st1)))
             | _ \<Rightarrow> (Break, st1)))"

datatype run_status = Done | Failed | OutOfFuel

text \<open>
  The \<^verbatim>\<open>while total_processed < target_count\<close> loop. A source that keeps answering with
  pages of rejected items and new cursors keeps it running for ever, so the model counts
  pages: \<open>OutOfFuel\<close> is a run that has not ended after \<open>fuel\<close> pages, and the state is the
  one reached by then.
\<close>

fun fetch_loop ::
  "nat \<Rightarrow> 'st environment \<Rightarrow> int \<Rightarrow> int \<Rightarrow> nat \<Rightarrow> 'st run_state \<Rightarrow> run_status \<times> 'st run_state"
  where
  "fetch_loop 0 env target_count prev_processed batch st =
     (if total_processed st < target_count then (OutOfFuel, st) else (Done, st))"
| "fetch_loop (Suc fuel) env target_count prev_processed batch st =
     (if total_processed st < target_count then
        (case fetch_step env target_count prev_processed batch st of
           (Continue, st') \<Rightarrow> fetch_loop fuel env target_count prev_processed (batch + 1) st'
         | (Break, st') \<Rightarrow> (Done, st')
         | (Raise, st') \<Rightarrow> (Failed, st'))
      else (Done, st))"

definition fetch_and_store ::
  "nat \<Rightarrow> 'st environment \<Rightarrow> int \<Rightarrow> state_file \<Rightarrow> 'st \<Rightarrow> run_status \<times> 'st run_state" where
  "fetch_and_store fuel env target_count file store =
     (case get_saved_state (text_of_value env) (save_fault_at env 0) file of
        ((cursor_s, prev_processed), file') \<Rightarrow>
          fetch_loop fuel env target_count prev_processed 1
            \<lparr> cursor = PStr cursor_s, total_processed = 0, the_file = file',
              the_store = store, requests = [], upserts = [] \<rparr>)"

section \<open>The specification of the validator\<close>

text \<open>
  The rejection rule in the words of the specification, to be compared with
  \<open>process_item\<close>. "Id coercion: accept integer or numeric string, reject otherwise."
\<close>

definition spec_id_coercible :: "pyval \<Rightarrow> bool" where
  "spec_id_coercible v =
     (case v of PInt i \<Rightarrow> True | PStr s \<Rightarrow> py_int_of_str s \<noteq> None | _ \<Rightarrow> False)"

text \<open>"Missing/non-coercible id". An item that is no mapping has no field at all.\<close>

definition spec_id_rejected :: "pyval \<Rightarrow> bool" where
  "spec_id_rejected item =
     (case item of
        PDict d \<Rightarrow> (case map_of d ''id'' of None \<Rightarrow> True | Some v \<Rightarrow> \<not> spec_id_coercible v)
      | _ \<Rightarrow> True)"

text \<open>"Missing or non-allow-listed model category".\<close>

definition spec_model_rejected :: "pyval \<Rightarrow> bool" where
  "spec_model_rejected item =
     (case item of
        PDict d \<Rightarrow>
          (case map_of d ''baseModel'' of None \<Rightarrow> True | Some v \<Rightarrow> v \<notin> set ALLOWED_MODELS)
      | _ \<Rightarrow> True)"

text \<open>"Missing or non-mapping metadata block".\<close>

definition spec_meta_rejected :: "pyval \<Rightarrow> bool" where
  "spec_meta_rejected item =
     (case item of
        PDict d \<Rightarrow> (case map_of d ''meta'' of Some (PDict m) \<Rightarrow> False | _ \<Rightarrow> True)
      | _ \<Rightarrow> True)"

text \<open>
  "Missing or empty prompt text", where empty is read as Python reads it: the empty string
  and every other value that counts as false.
\<close>

definition spec_prompt_rejected :: "pyval \<Rightarrow> bool" where
  "spec_prompt_rejected item =
     (case item of
        PDict d \<Rightarrow>
          (case map_of d ''meta'' of
             Some (PDict m) \<Rightarrow>
               (case map_of m ''prompt'' of None \<Rightarrow> True | Some p \<Rightarrow> \<not> truthy p)
           | _ \<Rightarrow> True)
      | _ \<Rightarrow> True)"

datatype failed_check = IdCheck | ModelCheck | MetaCheck | PromptCheck

text \<open>"In order checked": the first of the four reasons that applies, if any.\<close>

definition spec_first_failure :: "pyval \<Rightarrow> failed_check option" where
  "spec_first_failure item =
     (if spec_id_rejected item then Some IdCheck
      else if spec_model_rejected item then Some ModelCheck
      else if spec_meta_rejected item then Some MetaCheck
      else if spec_prompt_rejected item then Some PromptCheck
      else None)"

text \<open>The check behind each log line of \<^verbatim>\<open>_process_item\<close>.\<close>

fun check_of :: "rejection \<Rightarrow> failed_check" where
  "check_of InvalidItemFormat = IdCheck"
| "check_of NoId = IdCheck"
| "check_of InvalidIdFormat = IdCheck"
| "check_of NoBaseModel = ModelCheck"
| "check_of UnsupportedModel = ModelCheck"
| "check_of InvalidMetaFormat = MetaCheck"
| "check_of NoPrompt = PromptCheck"

definition code_first_failure :: "pyval \<Rightarrow> failed_check option" where
  "code_first_failure item =
     (case process_item item of Inl r \<Rightarrow> Some (check_of r) | Inr record \<Rightarrow> None)"

text \<open>The id field is present and is the integer zero.\<close>

definition zero_id :: "pyval \<Rightarrow> bool" where
  "zero_id item = (case item of PDict d \<Rightarrow> map_of d ''id'' = Some (PInt 0) | _ \<Rightarrow> False)"

section \<open>Sample inputs\<close>

text \<open>
  The three items of the end-to-end scenario of the specification: one that is stored, one
  whose model is not on the allow-list, one without a prompt; and two items whose id is zero,
  once as an integer and once as a string.
\<close>

definition cat_item :: pyval where
  "cat_item =
     PDict [(''id'', PInt 7), (''baseModel'', PStr ''Illustrious''),
            (''meta'', PDict [(''prompt'', PStr ''a cat'')])]"

definition sdxl_item :: pyval where
  "sdxl_item =
     PDict [(''id'', PInt 8), (''baseModel'', PStr ''SDXL''),
            (''meta'', PDict [(''prompt'', PStr ''a dog'')])]"

definition promptless_item :: pyval where
  "promptless_item =
     PDict [(''id'', PInt 9), (''baseModel'', PStr ''Pony''), (''meta'', PDict [])]"

definition int_zero_item :: pyval where
  "int_zero_item =
     PDict [(''id'', PInt 0), (''baseModel'', PStr ''Pony''),
            (''meta'', PDict [(''prompt'', PStr ''a cat'')])]"

definition str_zero_item :: pyval where
  "str_zero_item =
     PDict [(''id'', PStr ''0''), (''baseModel'', PStr ''Pony''),
            (''meta'', PDict [(''prompt'', PStr ''a cat'')])]"

text \<open>A stand-in for Python's text of a value that is no string.\<close>

definition sample_text_of :: "pyval \<Rightarrow> string" where
  "sample_text_of v = ''?''"

text \<open>The state file after \<^verbatim>\<open>_save_cursor("abc", 42)\<close> has gone through.\<close>

definition abc_file :: state_file where
  "abc_file = save_cursor NoFault (PStr ''abc'') 42 Absent"

section \<open>Notions used to state the properties of the write path and the orchestrator\<close>

text \<open>The store after a sequence of upserts that all return, \<open>None\<close> if one of them raises.\<close>

fun apply_upserts :: "'st qdrant_client \<Rightarrow> point list list \<Rightarrow> 'st \<Rightarrow> 'st option" where
  "apply_upserts cl [] st = Some st"
| "apply_upserts cl (b # bs) st =
     (case upsert cl b st of None \<Rightarrow> None | Some st' \<Rightarrow> apply_upserts cl bs st')"

text \<open>The point that \<^verbatim>\<open>_store_in_qdrant\<close> builds from a record and its vector.\<close>

definition to_point :: "(pyval \<Rightarrow> embval option) \<Rightarrow> canonical_record \<Rightarrow> point" where
  "to_point embedder r =
     \<lparr> point_id = rec_id r,
       vector = (case embedder (prompt r) of
                   None \<Rightarrow> []
                 | Some e \<Rightarrow> (case normalize_embedding e of Inl err \<Rightarrow> [] | Inr v \<Rightarrow> v)),
       payload = r \<rparr>"

text \<open>The embedder answers for the record's prompt and the answer can be normalised.\<close>

definition normalizable :: "(pyval \<Rightarrow> embval option) \<Rightarrow> canonical_record \<Rightarrow> bool" where
  "normalizable embedder r =
     (case embedder (prompt r) of
        None \<Rightarrow> False
      | Some e \<Rightarrow> (case normalize_embedding e of Inl err \<Rightarrow> False | Inr v \<Rightarrow> True))"




section \<open>A sample run\<close>

text \<open>
  A source with three pages. The first is the page of the end-to-end scenario and points to
  \<^verbatim>\<open>c1\<close>; the page at \<^verbatim>\<open>c1\<close> holds one item that is rejected and points to \<^verbatim>\<open>c2\<close>;
  every other cursor yields a page without items.
\<close>

definition sample_fetch_page :: "pyval \<Rightarrow> int \<Rightarrow> pyval option" where
  "sample_fetch_page c limit =
     (if c = PStr [] then
        Some (PDict [(''items'', PList [cat_item, sdxl_item, promptless_item]),
                     (''metadata'', PDict [(''nextCursor'', PStr ''c1'')])])
      else if c = PStr ''c1'' then
        Some (PDict [(''items'', PList [sdxl_item]),
                     (''metadata'', PDict [(''nextCursor'', PStr ''c2'')])])
      else Some (PDict [(''items'', PList [])]))"

definition sample_embedder :: "pyval \<Rightarrow> embval option" where
  "sample_embedder p = Some (ENdarray [1, 0])"

definition no_fault :: "nat \<Rightarrow> save_fault" where
  "no_fault n = NoFault"

definition sample_env :: "(point list) environment" where
  "sample_env =
     \<lparr> client = reference_client, get_embedding = sample_embedder,
       fetch_page = sample_fetch_page, save_fault_at = no_fault,
       text_of_value = sample_text_of \<rparr>"

definition cat_record :: canonical_record where
  "cat_record = projr (process_item cat_item)"

definition cat_point :: point where
  "cat_point = \<lparr> point_id = 7, vector = [1, 0], payload = cat_record \<rparr>"




text \<open>
  A store that only counts the upserts it has acknowledged, finds no duplicate, and raises
  on every upsert after the first.
\<close>

definition one_shot_client :: "nat qdrant_client" where
  "one_shot_client =
     \<lparr> scroll = (\<lambda>item_id n. Some []),
       upsert = (\<lambda>points n. if n = 0 then Some (Suc n) else None) \<rparr>"

text \<open>The bound that every \<^verbatim>\<open>limit\<close> parameter has to keep.\<close>

definition limit_ok :: "(pyval \<times> int) \<Rightarrow> bool" where
  "limit_ok req = (1 \<le> snd req \<and> snd req \<le> BATCH_SIZE)"

text \<open>
  A source whose every page holds 51 copies of the item that is stored, and the surroundings
  of a run against it with the store that acknowledges one upsert only.
\<close>

definition bulk_fetch_page :: "pyval \<Rightarrow> int \<Rightarrow> pyval option" where
  "bulk_fetch_page c limit =
     Some (PDict [(''items'', PList (replicate 51 cat_item)),
                  (''metadata'', PDict [(''nextCursor'', PStr ''c1'')])])"

definition bulk_env :: "nat environment" where
  "bulk_env =
     \<lparr> client = one_shot_client, get_embedding = sample_embedder,
       fetch_page = bulk_fetch_page, save_fault_at = no_fault,
       text_of_value = sample_text_of \<rparr>"

definition bulk_start :: "nat run_state" where
  "bulk_start =
     \<lparr> cursor = PStr [], total_processed = 0, the_file = abc_file,
       the_store = 0, requests = [], upserts = [] \<rparr>"

section \<open>Properties of the validator\<close>

lemma py_int_of_str_zero: "py_int_of_str ''0'' = Some 0"
  by (simp add: py_int_of_str_def py_strip_def py_isspace_def parse_unsigned_def digit_val_def)

lemma truthy_allowed: "v \<in> set ALLOWED_MODELS \<Longrightarrow> truthy v"
  by (auto simp: ALLOWED_MODELS_def)

lemma none_not_allowed: "PNone \<notin> set ALLOWED_MODELS"
  by (simp add: ALLOWED_MODELS_def)

lemma int_of_str_of_coercible:
  "truthy v \<Longrightarrow> (int_of_str_of v = None) = (\<not> spec_id_coercible v)"
  by (cases v) (simp_all add: spec_id_coercible_def)

lemma falsy_coercible: "\<not> truthy v \<Longrightarrow> spec_id_coercible v \<Longrightarrow> v = PInt 0"
  by (cases v) (auto simp: spec_id_coercible_def py_int_of_str_def py_strip_def)

lemma code_first_failure_eq:
  "code_first_failure item = (if zero_id item then Some IdCheck else spec_first_failure item)"
proof (cases item)
  case (PDict d)
  show ?thesis
  proof (cases "map_of d ''id''")
    case None
    with PDict show ?thesis
      by (simp add: code_first_failure_def process_item_def dict_get_def zero_id_def
          spec_first_failure_def spec_id_rejected_def)
  next
    case (Some v)
    show ?thesis
    proof (cases "truthy v")
      case False
      with PDict Some falsy_coercible [of v] show ?thesis
        by (auto simp: code_first_failure_def process_item_def dict_get_def zero_id_def
            spec_first_failure_def spec_id_rejected_def)
    next
      case True
      then have nz: "v \<noteq> PInt 0" by auto
      show ?thesis
      proof (cases "int_of_str_of v")
        case None
        with True PDict Some nz int_of_str_of_coercible [of v] show ?thesis
          by (simp add: code_first_failure_def process_item_def dict_get_def zero_id_def
              spec_first_failure_def spec_id_rejected_def)
      next
        case (Some i)
        with True have co: "spec_id_coercible v"
          using int_of_str_of_coercible [of v] by simp
        from PDict \<open>map_of d ''id'' = Some v\<close> True Some co nz truthy_allowed show ?thesis
          by (auto simp: none_not_allowed code_first_failure_def process_item_def dict_get_def
              zero_id_def spec_first_failure_def spec_id_rejected_def spec_model_rejected_def
              spec_meta_rejected_def spec_prompt_rejected_def Let_def
              split: option.splits pyval.splits)
      qed
    qed
  qed
qed (simp_all add: code_first_failure_def process_item_def zero_id_def spec_first_failure_def
      spec_id_rejected_def)

lemma rejected_iff_first_failure: "isl (process_item item) = (code_first_failure item \<noteq> None)"
  by (simp add: code_first_failure_def split: sum.splits)

text \<open>
  C4, as stated: an item is rejected exactly when one of the four reasons of the
  specification applies, and the check that rejects it is the first of them in the stated
  order. The item with the integer id 0, an allowed model, a metadata mapping and a prompt
  refutes it: none of the four reasons applies (0 is an integer), and the id check rejects it.
\<close>

theorem process_item_zero_id_counterexample:
  "code_first_failure int_zero_item = Some IdCheck \<and> spec_first_failure int_zero_item = None"
  by (simp add: int_zero_item_def code_first_failure_def process_item_def dict_get_def
      spec_first_failure_def spec_id_rejected_def spec_model_rejected_def
      spec_meta_rejected_def spec_prompt_rejected_def spec_id_coercible_def ALLOWED_MODELS_def)

text \<open>
  C4, amended: an item is rejected exactly when its id is the integer 0 or one of the four
  reasons of the specification applies; the check that rejects it is the id check for the
  integer 0 and otherwise the first of the four reasons in the stated order. In particular an
  item without a prompt and an item whose model is not on the allow-list are rejected.
\<close>

theorem process_item_first_failure:
  "code_first_failure item = (if zero_id item then Some IdCheck else spec_first_failure item)
   \<and> (spec_prompt_rejected item \<longrightarrow> isl (process_item item))
   \<and> (spec_model_rejected item \<longrightarrow> isl (process_item item))"
  by (simp add: rejected_iff_first_failure code_first_failure_eq spec_first_failure_def)

theorem process_item_first_failure_witness:
  "spec_model_rejected sdxl_item \<and> isl (process_item sdxl_item)
   \<and> code_first_failure sdxl_item = Some ModelCheck
   \<and> spec_prompt_rejected promptless_item \<and> isl (process_item promptless_item)
   \<and> code_first_failure promptless_item = Some PromptCheck
   \<and> code_first_failure cat_item = None"
proof -
  have m: "spec_model_rejected sdxl_item"
    by (simp add: sdxl_item_def spec_model_rejected_def ALLOWED_MODELS_def)
  have p: "spec_prompt_rejected promptless_item"
    by (simp add: promptless_item_def spec_prompt_rejected_def)
  have z: "\<not> zero_id sdxl_item" "\<not> zero_id promptless_item" "\<not> zero_id cat_item"
    by (simp_all add: sdxl_item_def promptless_item_def cat_item_def zero_id_def)
  have s1: "spec_first_failure sdxl_item = Some ModelCheck"
    by (simp add: sdxl_item_def spec_first_failure_def spec_id_rejected_def
        spec_id_coercible_def spec_model_rejected_def ALLOWED_MODELS_def)
  have s2: "spec_first_failure promptless_item = Some PromptCheck"
    by (simp add: promptless_item_def spec_first_failure_def spec_id_rejected_def
        spec_id_coercible_def spec_model_rejected_def spec_meta_rejected_def
        spec_prompt_rejected_def ALLOWED_MODELS_def)
  have s3: "spec_first_failure cat_item = None"
    by (simp add: cat_item_def spec_first_failure_def spec_id_rejected_def
        spec_id_coercible_def spec_model_rejected_def spec_meta_rejected_def
        spec_prompt_rejected_def ALLOWED_MODELS_def)
  show ?thesis
    using process_item_first_failure [of sdxl_item] process_item_first_failure [of promptless_item]
      process_item_first_failure [of cat_item] m p z s1 s2 s3
    by simp
qed

text \<open>
  C9, as stated, ends with "so id 0 can never be stored". The item whose id is the string
  \<^verbatim>\<open>"0"\<close> refutes that: the string is not empty, so it passes the truthiness test, and it
  reads as the integer 0; the item is accepted with id 0.
\<close>

theorem process_item_str_zero_counterexample:
  "\<not> isl (process_item str_zero_item) \<and> rec_id (projr (process_item str_zero_item)) = 0"
  by (simp add: str_zero_item_def process_item_def dict_get_def py_int_of_str_zero
      ALLOWED_MODELS_def make_record_def)

text \<open>
  C9, amended: an item whose id field is present and false in Python's sense (the integer 0
  and the empty string among them) is rejected by the id check; and a record with id 0 is
  produced only from an id given as a non-empty string that reads as zero, never from the
  integer 0.
\<close>

theorem process_item_falsy_id:
  "(map_of d ''id'' = Some v \<longrightarrow> \<not> truthy v \<longrightarrow> process_item (PDict d) = Inl NoId)
   \<and> (process_item (PDict d) = Inr r \<longrightarrow> rec_id r = 0 \<longrightarrow>
        (\<exists>s. map_of d ''id'' = Some (PStr s) \<and> s \<noteq> [] \<and> py_int_of_str s = Some 0))"
proof (intro conjI impI)
  assume "map_of d ''id'' = Some v" "\<not> truthy v"
  then show "process_item (PDict d) = Inl NoId"
    by (simp add: process_item_def dict_get_def)
next
  assume acc: "process_item (PDict d) = Inr r" and zero: "rec_id r = 0"
  define w where "w = dict_get d ''id'' PNone"
  from acc have t: "truthy w"
    by (auto simp: process_item_def w_def Let_def split: if_splits)
  with acc obtain i where i: "int_of_str_of w = Some i" and "rec_id r = i"
    by (auto simp: process_item_def w_def Let_def make_record_def
        split: if_splits option.splits pyval.splits)
  with zero have "int_of_str_of w = Some 0" by simp
  with t obtain s where s: "w = PStr s" "s \<noteq> []" "py_int_of_str s = Some 0"
    by (cases w) auto
  from t have "w \<noteq> PNone" by auto
  then have "map_of d ''id'' = Some w"
    by (auto simp: w_def dict_get_def split: option.splits)
  with s show "\<exists>s. map_of d ''id'' = Some (PStr s) \<and> s \<noteq> [] \<and> py_int_of_str s = Some 0"
    by simp
qed

theorem process_item_falsy_id_witness:
  "process_item int_zero_item = Inl NoId
   \<and> process_item (PDict [(''id'', PStr []), (''baseModel'', PStr ''Pony'')]) = Inl NoId
   \<and> (\<exists>s. s \<noteq> [] \<and> py_int_of_str s = Some 0)"
proof -
  have a: "process_item int_zero_item = Inl NoId"
    using process_item_falsy_id
      [of "[(''id'', PInt 0), (''baseModel'', PStr ''Pony''),
            (''meta'', PDict [(''prompt'', PStr ''a cat'')])]" "PInt 0"]
    by (simp add: int_zero_item_def)
  have b: "process_item (PDict [(''id'', PStr []), (''baseModel'', PStr ''Pony'')]) = Inl NoId"
    using process_item_falsy_id [of "[(''id'', PStr []), (''baseModel'', PStr ''Pony'')]" "PStr []"]
    by simp
  have acc: "process_item str_zero_item
             = Inr (make_record 0 [(''id'', PStr ''0''), (''baseModel'', PStr ''Pony''),
                      (''meta'', PDict [(''prompt'', PStr ''a cat'')])] (PStr ''Pony'')
                      [(''prompt'', PStr ''a cat'')] (PStr ''a cat''))"
    by (simp add: str_zero_item_def process_item_def dict_get_def py_int_of_str_zero
        ALLOWED_MODELS_def Let_def)
  have c: "\<exists>s. s \<noteq> [] \<and> py_int_of_str s = Some 0"
    using process_item_falsy_id
      [of "[(''id'', PStr ''0''), (''baseModel'', PStr ''Pony''),
            (''meta'', PDict [(''prompt'', PStr ''a cat'')])]" _
          "make_record 0 [(''id'', PStr ''0''), (''baseModel'', PStr ''Pony''),
                      (''meta'', PDict [(''prompt'', PStr ''a cat'')])] (PStr ''Pony'')
                      [(''prompt'', PStr ''a cat'')] (PStr ''a cat'')"] acc
    by (auto simp: str_zero_item_def make_record_def)
  from a b c show ?thesis by simp
qed

section \<open>Properties of the cursor store\<close>

lemma get_saved_state_after_save:
  "get_saved_state text_of fault (save_cursor NoFault c n file)
   = ((py_str text_of c, n), save_cursor NoFault c n file)"
  by (simp add: get_saved_state_def save_cursor_def dict_get_def)

text \<open>
  C5: a save that goes through, followed by a load, returns the cursor string and the count
  that were saved, for every string and every count (the non-negative ones among them) and
  whatever the file held before; the load leaves the file as the save wrote it. The instance
  of the specification: saving \<^verbatim>\<open>"abc"\<close> and 42 and loading yields \<^verbatim>\<open>"abc"\<close> and 42.
\<close>

theorem cursor_round_trip:
  "get_saved_state text_of fault (save_cursor NoFault (PStr c) n file)
   = ((c, n), save_cursor NoFault (PStr c) n file)
   \<and> fst (get_saved_state text_of fault (save_cursor NoFault (PStr ''abc'') 42 file))
     = (''abc'', 42)"
  by (simp add: get_saved_state_after_save py_str_def)

text \<open>
  C6: on a state file that is absent, that cannot be read, or that is not JSON, the load
  returns the empty cursor and the count 0. It returns in each case, whatever happens to the
  reset of the file that it attempts on a file that is not JSON; when that reset goes
  through, the file holds the default state afterwards.
\<close>

theorem get_saved_state_default:
  "fst (get_saved_state text_of fault Absent) = ([], 0)
   \<and> fst (get_saved_state text_of fault Unreadable) = ([], 0)
   \<and> fst (get_saved_state text_of fault Malformed) = ([], 0)
   \<and> snd (get_saved_state text_of NoFault Malformed)
     = Document (PDict [(''cursor'', PStr []), (''total_processed'', PInt 0)])"
  by (simp add: get_saved_state_def save_cursor_def)

text \<open>
  C3, as stated: after a save that fails partway the previously persisted state is intact
  and readable. The file that holds \<^verbatim>\<open>"abc"\<close> and 42 refutes it: a save that fails while
  the document is written has already emptied the file, and the next load returns the default
  state.
\<close>

theorem save_cursor_not_atomic_counterexample:
  "fst (get_saved_state sample_text_of NoFault abc_file) = (''abc'', 42)
   \<and> fst (get_saved_state sample_text_of NoFault
            (save_cursor FailWhileWriting (PStr ''def'') 43 abc_file)) = ([], 0)"
  by (simp add: abc_file_def get_saved_state_def save_cursor_def dict_get_def py_str_def)

text \<open>
  C3, amended: the save writes the file in place and never raises. A save that fails before
  the file is opened leaves the persisted state as it was: the next load reads what it would
  have read before. A save that fails while the document is written leaves a file that is
  not JSON, whatever it held before, and the next load returns the default state. A save
  that goes through is read back by the next load.
\<close>

theorem save_cursor_outcomes:
  "get_saved_state text_of fault' (save_cursor FailBeforeOpen c n file)
   = get_saved_state text_of fault' file
   \<and> save_cursor FailWhileWriting c n file = Malformed
   \<and> fst (get_saved_state text_of fault' (save_cursor FailWhileWriting c n file)) = ([], 0)
   \<and> fst (get_saved_state text_of fault' (save_cursor NoFault c n file)) = (py_str text_of c, n)"
  by (simp add: get_saved_state_after_save) (simp add: get_saved_state_def save_cursor_def)

section \<open>Properties of the embedding normalisation\<close>

lemma those_float_comp: "those (map (py_float \<circ> ENum) rs) = Some rs"
  by (induction rs) simp_all

text \<open>
  C1 on the three shapes. A numeric array, a list holding one array and a list holding one
  list of numbers all come out as the flat sequence of their numbers. A flat list of numbers
  does not: the write path takes its first element for the vector, finds a number where it
  expects a list, and skips the record. The read path in \<^verbatim>\<open>get_similar_prompts\<close> leaves the
  same flat list as it is.
\<close>

theorem normalize_embedding_shapes:
  "normalize_embedding (ENdarray rs) = Inr rs
   \<and> normalize_embedding (EList [ENdarray rs]) = Inr rs
   \<and> normalize_embedding (EList [EList (map ENum rs)]) = Inr rs
   \<and> normalize_embedding (EList (map ENum (r # rs))) = Inl InvalidEmbeddingFormat
   \<and> get_similar_prompts_embedding (EList (map ENum (r # rs))) = EList (map ENum (r # rs))"
  by (simp add: normalize_embedding_def unwrap_embedding_def tolist_def those_float_comp
      get_similar_prompts_embedding_def)

section \<open>Properties of the orchestrator\<close>

lemma advance_cursor_fields:
  "requests (snd (advance_cursor d st)) = requests st"
  "the_file (snd (advance_cursor d st)) = the_file st"
  "the_store (snd (advance_cursor d st)) = the_store st"
  "total_processed (snd (advance_cursor d st)) = total_processed st"
  "upserts (snd (advance_cursor d st)) = upserts st"
  by (simp_all add: advance_cursor_def split: option.splits)

lemma fetch_step_requests:
  "requests (snd (fetch_step env t p b st))
   = requests st @ [(cursor st, min BATCH_SIZE (t - total_processed st))]"
  by (simp add: fetch_step_def Let_def advance_cursor_fields
      split: option.splits pyval.splits prod.splits)

lemma fetch_loop_requests:
  "list_all limit_ok (requests st)
   \<Longrightarrow> list_all limit_ok (requests (snd (fetch_loop fuel env t p b st)))"
proof (induction fuel arbitrary: b st)
  case 0
  then show ?case by simp
next
  case (Suc fuel)
  show ?case
  proof (cases "total_processed st < t")
    case False
    with Suc.prems show ?thesis by simp
  next
    case True
    obtain res st' where step: "fetch_step env t p b st = (res, st')"
      by (cases "fetch_step env t p b st")
    have "requests st' = requests st @ [(cursor st, min BATCH_SIZE (t - total_processed st))]"
      using fetch_step_requests [of env t p b st] step by simp
    moreover from True have "limit_ok (cursor st, min BATCH_SIZE (t - total_processed st))"
      by (simp add: limit_ok_def BATCH_SIZE_def)
    ultimately have ok: "list_all limit_ok (requests st')"
      using Suc.prems by simp
    show ?thesis
    proof (cases res)
      case Continue
      with True step Suc.IH [OF ok] show ?thesis by simp
    next
      case Break
      with True step ok show ?thesis by simp
    next
      case Raise
      with True step ok show ?thesis by simp
    qed
  qed
qed

lemma fetch_loop_requests_prefix:
  "\<exists>ys. requests (snd (fetch_loop fuel env t p b st)) = requests st @ ys"
proof (induction fuel arbitrary: b st)
  case 0
  then show ?case by simp
next
  case (Suc fuel)
  show ?case
  proof (cases "total_processed st < t")
    case False
    then show ?thesis by simp
  next
    case True
    obtain res st' where step: "fetch_step env t p b st = (res, st')"
      by (cases "fetch_step env t p b st")
    have r: "requests st' = requests st @ [(cursor st, min BATCH_SIZE (t - total_processed st))]"
      using fetch_step_requests [of env t p b st] step by simp
    show ?thesis
    proof (cases res)
      case Continue
      from Suc.IH [of "b + 1" st'] obtain ys
        where "requests (snd (fetch_loop fuel env t p (b + 1) st')) = requests st' @ ys" by blast
      with True step Continue r show ?thesis by simp
    next
      case Break
      with True step r show ?thesis by simp
    next
      case Raise
      with True step r show ?thesis by simp
    qed
  qed
qed

lemma first_request_of_run:
  "0 < t \<Longrightarrow>
   \<exists>ys. requests (snd (fetch_loop (Suc fuel) env t p b
                          \<lparr> cursor = c, total_processed = 0, the_file = f, the_store = s,
                            requests = [], upserts = [] \<rparr>))
        = (c, min BATCH_SIZE t) # ys"
proof -
  assume pos: "0 < t"
  let ?st = "\<lparr> cursor = c, total_processed = 0, the_file = f, the_store = s,
               requests = [], upserts = [] \<rparr>"
  obtain res st' where step: "fetch_step env t p b ?st = (res, st')"
    by (cases "fetch_step env t p b ?st")
  have r: "requests st' = [(c, min BATCH_SIZE t)]"
    using fetch_step_requests [of env t p b ?st] step by simp
  show ?thesis
  proof (cases res)
    case Continue
    from fetch_loop_requests_prefix [of fuel env t p "b + 1" st'] obtain ys
      where "requests (snd (fetch_loop fuel env t p (b + 1) st')) = requests st' @ ys" by blast
    with pos step Continue r show ?thesis by simp
  next
    case Break
    with pos step r show ?thesis by simp
  next
    case Raise
    with pos step r show ?thesis by simp
  qed
qed

lemma cat_record_eq: "process_item cat_item = Inr cat_record"
  by (simp add: cat_record_def cat_item_def process_item_def dict_get_def ALLOWED_MODELS_def
      Let_def)



text \<open>
  C7: whatever target count is requested, every fetch call of a run asks the source for at
  least 1 and at most 200 items. This holds for every number of pages the run gets through,
  a run that has not ended included. A run asked for 500 records requests 200 items with its
  first call.
\<close>

theorem fetch_limit_capped:
  "(\<forall>req \<in> set (requests (snd (fetch_and_store fuel env target_count file store))).
       1 \<le> snd req \<and> snd req \<le> 200)
   \<and> map snd (take 1 (requests (snd (fetch_and_store (Suc fuel) env 500 file store)))) = [200]"
proof
  obtain cursor_s prev file'
    where g: "get_saved_state (text_of_value env) (save_fault_at env 0) file
              = ((cursor_s, prev), file')"
    by (metis prod.exhaust)
  let ?st = "\<lparr> cursor = PStr cursor_s, total_processed = 0, the_file = file',
               the_store = store, requests = [], upserts = [] \<rparr>"
  have "list_all limit_ok (requests (snd (fetch_loop fuel env target_count prev 1 ?st)))"
    by (rule fetch_loop_requests) simp
  with g show "\<forall>req \<in> set (requests (snd (fetch_and_store fuel env target_count file store))).
                 1 \<le> snd req \<and> snd req \<le> 200"
    by (simp add: fetch_and_store_def list_all_iff limit_ok_def BATCH_SIZE_def)
  from first_request_of_run [of 500 fuel env prev 1 "PStr cursor_s" file' store] obtain ys
    where "requests (snd (fetch_loop (Suc fuel) env 500 prev 1 ?st))
           = (PStr cursor_s, min BATCH_SIZE 500) # ys"
    by auto
  with g show "map snd (take 1 (requests (snd (fetch_and_store (Suc fuel) env 500 file store))))
               = [200]"
    by (simp add: fetch_and_store_def BATCH_SIZE_def)
qed

theorem fetch_limit_capped_witness:
  "(PStr [], 200) \<in> set (requests (snd (fetch_and_store 1 sample_env 500 Absent [])))
   \<and> map snd (requests (snd (fetch_and_store 1 sample_env 500 Absent []))) = [200]"
proof -
  let ?st = "\<lparr> cursor = PStr [], total_processed = 0, the_file = Absent,
               the_store = [], requests = [], upserts = [] \<rparr> :: (point list) run_state"
  obtain res st' where step: "fetch_step sample_env 500 0 1 ?st = (res, st')"
    by (cases "fetch_step sample_env 500 0 1 ?st")
  have "requests st' = [(PStr [], 200)]"
    using fetch_step_requests [of sample_env 500 0 1 ?st] step by (simp add: BATCH_SIZE_def)
  with step have run:
    "requests (snd (fetch_and_store 1 sample_env 500 Absent [])) = [(PStr [], 200)]"
    by (cases res) (simp_all add: fetch_and_store_def get_saved_state_def)
  show ?thesis
    using fetch_limit_capped [of 1 sample_env 500 Absent "[]"] run
    by simp
qed

section \<open>Properties of the write path\<close>

lemma sub_batches_Nil: "sub_batches n [] = []"
  by (simp add: sub_batches.simps)

lemma sub_batches_step:
  "0 < n \<Longrightarrow> xs \<noteq> [] \<Longrightarrow> sub_batches n xs = take n xs # sub_batches n (drop n xs)"
  by (simp add: sub_batches.simps [of n xs])

lemma concat_sub_batches: "0 < n \<Longrightarrow> concat (sub_batches n xs) = xs"
proof (induction n xs rule: sub_batches.induct)
  case (1 n xs)
  show ?case
  proof (cases "xs = []")
    case True
    then show ?thesis by (simp add: sub_batches_Nil)
  next
    case False
    with 1 show ?thesis by (simp add: sub_batches_step)
  qed
qed

lemma sub_batches_sizes: "b \<in> set (sub_batches n xs) \<Longrightarrow> 0 < length b \<and> length b \<le> n"
proof (induction n xs rule: sub_batches.induct)
  case (1 n xs)
  show ?case
  proof (cases "n = 0 \<or> xs = []")
    case True
    with "1.prems" show ?thesis by (auto simp: sub_batches.simps [of n xs])
  next
    case False
    with 1 show ?thesis by (auto simp: sub_batches_step)
  qed
qed


lemma submit_batches_fail:
  "k < length bs \<Longrightarrow> apply_upserts cl (take k bs) st = Some st_k
   \<Longrightarrow> upsert cl (bs ! k) st_k = None
   \<Longrightarrow> submit_batches cl bs st sent = (st_k, sent @ take (Suc k) bs, False)"
proof (induction bs arbitrary: k st sent)
  case Nil
  then show ?case by simp
next
  case (Cons b bs)
  show ?case
  proof (cases k)
    case 0
    with Cons.prems show ?thesis by simp
  next
    case (Suc j)
    with Cons.prems obtain st1
      where first: "upsert cl b st = Some st1"
        and rest: "apply_upserts cl (take j bs) st1 = Some st_k"
      by (auto split: option.splits)
    from Cons.prems Suc have "j < length bs" "upsert cl (bs ! j) st_k = None" by simp_all
    with Cons.IH [of j st1 "sent @ [b]"] rest first Suc show ?thesis by simp
  qed
qed

lemma collect_points_eq:
  "\<forall>r \<in> set rs. check_duplicate cl st (rec_id r) \<or> normalizable embedder r \<Longrightarrow>
   collect_points cl embedder st rs acc sk
   = Some (acc @ map (to_point embedder)
                   (filter (\<lambda>r. \<not> check_duplicate cl st (rec_id r)) rs),
           sk + length (filter (\<lambda>r. check_duplicate cl st (rec_id r)) rs))"
  by (induction rs arbitrary: acc sk)
     (auto simp: normalizable_def to_point_def split: option.splits sum.splits)

lemma store_in_qdrant_fail:
  assumes collect: "collect_points cl embedder st records [] 0 = Some (points, skipped)"
    and k: "k < length (sub_batches 50 points)"
    and before: "apply_upserts cl (take k (sub_batches 50 points)) st = Some st_k"
    and fails: "upsert cl (sub_batches 50 points ! k) st_k = None"
  shows "store_in_qdrant cl embedder records st
         = \<lparr> store_after = st_k, raised = True, skipped_count = skipped,
             new_points = points, submitted = take (Suc k) (sub_batches 50 points) \<rparr>"
proof -
  from k have "points \<noteq> []" by (auto simp: sub_batches_Nil)
  with collect submit_batches_fail [OF k before fails, of "[]"] show ?thesis
    by (simp add: store_in_qdrant_def)
qed

lemma fetch_step_write_raises:
  assumes "fetch_page env (cursor st) (min BATCH_SIZE (t - total_processed st)) = Some (PDict d)"
    and "map_of d ''items'' = Some items" and "truthy items"
    and "iter_items items = Some its" and "processed_records its = records"
    and "records \<noteq> []"
    and "store_in_qdrant (client env) (get_embedding env) records (the_store st) = w"
    and "raised w"
  shows "fetch_step env t p b st
         = (Break,
            st\<lparr>requests := requests st @ [(cursor st, min BATCH_SIZE (t - total_processed st))],
               the_store := store_after w, upserts := upserts st @ submitted w\<rparr>)"
  using assms by (simp add: fetch_step_def Let_def dict_get_def)

text \<open>
  C8: the points of a write call are cut into sub-batches of at most 50, in order. When the
  upsert of sub-batch number \<open>k\<close> raises after the sub-batches before it went through, the
  write call raises; it has submitted the sub-batches up to number \<open>k\<close> and no later one,
  and the store is the one reached after the sub-batches before \<open>k\<close>: nothing is undone. The
  orchestrator catches the exception and ends the run at that page: the cursor file, the
  count and the cursor in memory stay as they were before the page.
\<close>

theorem failed_sub_batch_aborts_write:
  assumes collect:
      "collect_points (client env) (get_embedding env) (the_store st) records [] 0
       = Some (points, skipped)"
    and k: "k < length (sub_batches 50 points)"
    and before:
      "apply_upserts (client env) (take k (sub_batches 50 points)) (the_store st) = Some st_k"
    and fails: "upsert (client env) (sub_batches 50 points ! k) st_k = None"
    and page:
      "fetch_page env (cursor st) (min BATCH_SIZE (target_count - total_processed st))
       = Some (PDict d)"
    and items: "map_of d ''items'' = Some items" "truthy items" "iter_items items = Some its"
    and records: "processed_records its = records" "records \<noteq> []"
    and more: "total_processed st < target_count"
  shows
    "concat (sub_batches 50 points) = points
     \<and> (\<forall>b \<in> set (sub_batches 50 points). 0 < length b \<and> length b \<le> 50)
     \<and> store_in_qdrant (client env) (get_embedding env) records (the_store st)
       = \<lparr> store_after = st_k, raised = True, skipped_count = skipped,
           new_points = points, submitted = take (Suc k) (sub_batches 50 points) \<rparr>
     \<and> fetch_loop (Suc fuel) env target_count prev_processed batch st
       = (Done,
          st\<lparr>requests := requests st
                @ [(cursor st, min BATCH_SIZE (target_count - total_processed st))],
             the_store := st_k,
             upserts := upserts st @ take (Suc k) (sub_batches 50 points)\<rparr>)"
proof -
  let ?w = "\<lparr> store_after = st_k, raised = True, skipped_count = skipped,
              new_points = points, submitted = take (Suc k) (sub_batches 50 points) \<rparr>"
  have w: "store_in_qdrant (client env) (get_embedding env) records (the_store st) = ?w"
    by (rule store_in_qdrant_fail [OF collect k before fails])
  have "fetch_step env target_count prev_processed batch st
        = (Break,
           st\<lparr>requests := requests st
                 @ [(cursor st, min BATCH_SIZE (target_count - total_processed st))],
              the_store := store_after ?w, upserts := upserts st @ submitted ?w\<rparr>)"
    by (rule fetch_step_write_raises [OF page items records w]) simp
  with more have "fetch_loop (Suc fuel) env target_count prev_processed batch st
       = (Done,
          st\<lparr>requests := requests st
                @ [(cursor st, min BATCH_SIZE (target_count - total_processed st))],
             the_store := st_k,
             upserts := upserts st @ take (Suc k) (sub_batches 50 points)\<rparr>)"
    by simp
  moreover have "\<forall>b \<in> set (sub_batches 50 points). 0 < length b \<and> length b \<le> 50"
    using sub_batches_sizes [of _ 50 points] by blast
  moreover have "concat (sub_batches 50 points) = points"
    by (simp add: concat_sub_batches)
  ultimately show ?thesis
    using w by blast
qed

lemma concat_replicate_single: "concat (replicate n [x]) = replicate n x"
  by (induction n) simp_all

lemma processed_replicate_cat:
  "processed_records (replicate n cat_item) = replicate n cat_record"
  by (simp add: processed_records_def cat_record_eq concat_replicate_single)

lemma normalize_sample: "normalize_embedding (ENdarray [1, 0]) = Inr [1, 0]"
  by (simp add: normalize_embedding_def unwrap_embedding_def tolist_def)

lemma rec_id_cat_record: "rec_id cat_record = 7"
  by (simp add: cat_record_def cat_item_def process_item_def dict_get_def ALLOWED_MODELS_def
      Let_def make_record_def)

lemma to_point_cat: "to_point sample_embedder cat_record = cat_point"
  by (simp add: to_point_def sample_embedder_def normalize_sample rec_id_cat_record
      cat_point_def)

lemma sub_batches_51: "sub_batches 50 (replicate 51 x) = [replicate 50 x, [x]]"
proof -
  have "sub_batches 50 (replicate 51 x)
        = take 50 (replicate 51 x) # sub_batches 50 (drop 50 (replicate 51 x))"
    by (rule sub_batches_step) simp_all
  moreover have "take 50 (replicate 51 x) = replicate 50 x" by simp
  moreover have "drop 50 (replicate 51 x) = [x]" by simp
  moreover have "sub_batches 50 [x] = take 50 [x] # sub_batches 50 (drop 50 [x])"
    by (rule sub_batches_step) simp_all
  ultimately show ?thesis by (simp add: sub_batches_Nil)
qed

theorem failed_sub_batch_aborts_write_witness:
  "fetch_loop (Suc 0) bulk_env 500 42 1 bulk_start
     = (Done, bulk_start\<lparr>requests := [(PStr [], 200)], the_store := 1,
                          upserts := [replicate 50 cat_point, [cat_point]]\<rparr>)
   \<and> the_file (snd (fetch_loop (Suc 0) bulk_env 500 42 1 bulk_start)) = abc_file
   \<and> sub_batches 50 (replicate 51 cat_point) = [replicate 50 cat_point, [cat_point]]"
proof -
  let ?d = "[(''items'', PList (replicate 51 cat_item)),
             (''metadata'', PDict [(''nextCursor'', PStr ''c1'')])]"
  let ?points = "replicate 51 cat_point"
  have collect:
    "collect_points (client bulk_env) (get_embedding bulk_env) (the_store bulk_start)
       (replicate 51 cat_record) [] 0 = Some (?points, 0)"
  proof -
    have nodup: "\<And>i. \<not> check_duplicate one_shot_client 0 i"
      by (simp add: check_duplicate_def one_shot_client_def)
    have "\<forall>r \<in> set (replicate 51 cat_record).
            check_duplicate one_shot_client 0 (rec_id r) \<or> normalizable sample_embedder r"
      by (simp add: normalizable_def sample_embedder_def normalize_sample)
    from collect_points_eq [OF this, of "[]" 0] show ?thesis
      by (simp add: nodup to_point_cat bulk_env_def bulk_start_def)
  qed
  have k: "1 < length (sub_batches 50 ?points)"
    by (simp add: sub_batches_51)
  have before:
    "apply_upserts (client bulk_env) (take 1 (sub_batches 50 ?points)) (the_store bulk_start)
     = Some 1"
    by (simp add: sub_batches_51 bulk_env_def bulk_start_def one_shot_client_def)
  have fails: "upsert (client bulk_env) (sub_batches 50 ?points ! 1) 1 = None"
    by (simp add: sub_batches_51 bulk_env_def one_shot_client_def)
  have page:
    "fetch_page bulk_env (cursor bulk_start) (min BATCH_SIZE (500 - total_processed bulk_start))
     = Some (PDict ?d)"
    by (simp add: bulk_env_def bulk_fetch_page_def)
  have items: "map_of ?d ''items'' = Some (PList (replicate 51 cat_item))"
    "truthy (PList (replicate 51 cat_item))"
    "iter_items (PList (replicate 51 cat_item)) = Some (replicate 51 cat_item)"
    by simp_all
  have records: "processed_records (replicate 51 cat_item) = replicate 51 cat_record"
    "replicate 51 cat_record \<noteq> []"
    by (simp_all add: processed_replicate_cat)
  have more: "total_processed bulk_start < 500"
    by (simp add: bulk_start_def)
  have run: "fetch_loop (Suc 0) bulk_env 500 42 1 bulk_start
     = (Done, bulk_start\<lparr>requests := [(PStr [], 200)], the_store := 1,
                          upserts := [replicate 50 cat_point, [cat_point]]\<rparr>)"
    using failed_sub_batch_aborts_write
      [OF collect k before fails page items records more, of 0 42 1]
    by (simp add: sub_batches_51 bulk_start_def BATCH_SIZE_def)
  then show ?thesis
    by (simp add: sub_batches_51) (simp add: bulk_start_def)
qed

section \<open>Idempotence of the write path on the reference store\<close>






















end
